theory Spec2Isabelle
  imports Main "HOL-Library.Word"
begin

section \<open>The replicated document model of pdf-viewer.js\<close>

text \<open>
  \<^verbatim>\<open>PDFModel\<close> is a replicated object: every handler runs to completion on one
  message, reads the logical clock through \<^verbatim>\<open>this.now()\<close>, mutates the fields
  of the model and publishes events.  Each handler is embedded as a function
  from the logical time (where the handler reads it) and the state before to
  the state after and the list of effects it produced, in the order of the
  source.
\<close>

subsection \<open>JavaScript values\<close>

text \<open>
  A field that may be \<^verbatim>\<open>undefined\<close> or \<^verbatim>\<open>null\<close> is an option.  A string used as
  a condition is true unless it is missing or empty.
\<close>

definition truthy :: "string option \<Rightarrow> bool" where
  "truthy v = (case v of None \<Rightarrow> False | Some s \<Rightarrow> s \<noteq> [])"

text \<open>\<^verbatim>\<open>Q.PLACE_TIMEOUT = 1000\<close>\<close>

definition PLACE_TIMEOUT :: int where
  "PLACE_TIMEOUT = 1000"

subsection \<open>Data\<close>

text \<open>The string tags \<^verbatim>\<open>"place"\<close> and \<^verbatim>\<open>"load"\<close> of the \<^verbatim>\<open>lock\<close> field.\<close>

datatype lock_kind = Place | Load

text \<open>
  \<^verbatim>\<open>this.interactionStatus\<close> is either \<^verbatim>\<open>{}\<close>, where every field reads as
  \<^verbatim>\<open>undefined\<close>, or \<^verbatim>\<open>{ ...data, time }\<close> as written by
  \<^verbatim>\<open>applyLockIfAvailable\<close>.
\<close>

record interaction_status =
  viewId :: "string option"
  lock :: "lock_kind option"
  sourceHash :: "string option"
  time :: "int option"

definition no_status :: interaction_status where
  "no_status = \<lparr>viewId = None, lock = None, sourceHash = None, time = None\<rparr>"

text \<open>A data handle of the blob store, identified by its id (\<^verbatim>\<open>Data.fromId\<close>).\<close>

datatype data_handle = DataHandle string

text \<open>
  \<^verbatim>\<open>knownHandles\<close> is an object used as a table from source hash to
  \<^verbatim>\<open>{ handle, name }\<close>.  Its keys are base64url digests, which are not
  names of inherited object properties, so a lookup is a lookup in a map; an
  entry is an object and so always counts as present.  Logical times are the
  integral milliseconds of the replicated clock.
\<close>

text \<open>
  The relative scale is the number \<^verbatim>\<open>1\<close> after a reset and otherwise the
  token a view sent (\<^verbatim>\<open>"1.0"\<close>, a preset name); the model only stores it.
\<close>

datatype scale_value = ScaleNumber int | ScaleToken string

text \<open>\<^verbatim>\<open>this.scroll\<close>: \<^verbatim>\<open>{ top, left }\<close> after a reset, \<^verbatim>\<open>{ page, top, left }\<close> after a move.\<close>

record scroll_pos =
  page :: "int option"
  top :: int
  left :: int

record pdf_model =
  scroll :: scroll_pos
  relativeScale :: scale_value
  pagesRotation :: int
  scrollMode :: int
  interactionStatus :: interaction_status
  knownHandles :: "string \<rightharpoonup> data_handle \<times> string"
  docSourceHash :: "string option"

text \<open>The payloads of the messages the model subscribes to.\<close>

record place_data =
  pd_viewId :: string
  pd_page :: int
  pd_top :: int
  pd_left :: int
  pd_scale :: scale_value
  pd_rotation :: int
  pd_scrollMode :: int

record load_request =
  lr_viewId :: string
  lr_sourceHash :: string
  lr_name :: string
  lr_userDescription :: "string option"

record load_start =
  ls_viewId :: "string option"
  ls_sourceHash :: string
  ls_handle :: data_handle
  ls_name :: string
  ls_userDescription :: "string option"

record rotation_request =
  rr_viewId :: string
  rr_rotation :: int

record scrollmode_request =
  sm_viewId :: string
  sm_mode :: int

text \<open>The argument of \<^verbatim>\<open>applyLockIfAvailable\<close>: \<^verbatim>\<open>{ viewId, lock }\<close> or
  \<^verbatim>\<open>{ viewId, sourceHash, lock }\<close>.\<close>

record lock_data =
  ld_viewId :: string
  ld_sourceHash :: "string option"
  ld_lock :: lock_kind

text \<open>
  What a handler does besides changing the model: the events it publishes,
  the snapshot request, the diagnostic log line, and the future message
  \<^verbatim>\<open>this.future(Q.PLACE_TIMEOUT).checkInteractionStatus()\<close>, recorded with the
  logical time at which it is due.
\<close>

datatype effect =
    PublishLoadApproved load_request
  | PublishLoadReady "string option" string string "string option"
  | PublishPlaceUpdate string
  | PublishRotationApproved rotation_request
  | PublishScrollModeApproved scrollmode_request
  | PersistSession
  | ConsoleLog string
  | FutureCheckInteractionStatus int

datatype js_error = TypeError

record persisted_data =
  p_handles :: "string \<rightharpoonup> string \<times> string"
  p_docSourceHash :: "string option"

subsection \<open>Handlers\<close>

definition resetPlaceParameters :: "pdf_model \<Rightarrow> pdf_model" where
  "resetPlaceParameters s =
     s\<lparr>scroll := \<lparr>page = None, top = 0, left = 0\<rparr>,
       relativeScale := ScaleNumber 1,
       pagesRotation := 0,
       scrollMode := 0\<rparr>"

definition releaseInteractionStatus :: "pdf_model \<Rightarrow> pdf_model" where
  "releaseInteractionStatus s = s\<lparr>interactionStatus := no_status\<rparr>"

text \<open>
  Returns whether the lock was granted, the state and the effects.  In the
  \<^verbatim>\<open>"place"\<close> case the future check is sent before the status is written; a
  rejection returns before either.
\<close>

definition applyLockIfAvailable ::
  "int \<Rightarrow> lock_data \<Rightarrow> pdf_model \<Rightarrow> bool \<times> pdf_model \<times> effect list" where
  "applyLockIfAvailable now data s =
     (let newViewId = ld_viewId data;
          newLock = ld_lock data;
          cur = interactionStatus s;
          granted = \<lparr>viewId = Some newViewId, lock = Some newLock,
                     sourceHash = ld_sourceHash data, time = Some now\<rparr>
      in case newLock of
           Place \<Rightarrow>
             if truthy (viewId cur) \<and> (viewId cur \<noteq> Some newViewId \<or> lock cur \<noteq> Some Place)
             then (False, s, [])
             else (True, s\<lparr>interactionStatus := granted\<rparr>,
                   [FutureCheckInteractionStatus (now + PLACE_TIMEOUT)])
         | Load \<Rightarrow>
             if lock cur = Some Load \<and> sourceHash cur = ld_sourceHash data
             then (False, s, [])
             else (True, s\<lparr>interactionStatus := granted\<rparr>, []))"

definition requestLoad :: "int \<Rightarrow> load_request \<Rightarrow> pdf_model \<Rightarrow> pdf_model \<times> effect list" where
  "requestLoad now data s =
     (case applyLockIfAvailable now
             \<lparr>ld_viewId = lr_viewId data, ld_sourceHash = Some (lr_sourceHash data), ld_lock = Load\<rparr> s of
        (ok, s', es) \<Rightarrow> if \<not> ok then (s', es) else (s', es @ [PublishLoadApproved data]))"

definition startLoad :: "load_start \<Rightarrow> pdf_model \<Rightarrow> pdf_model \<times> effect list" where
  "startLoad data s =
     (let h = ls_sourceHash data;
          s1 = (if knownHandles s h = None
                then s\<lparr>knownHandles := (knownHandles s)(h \<mapsto> (ls_handle data, ls_name data))\<rparr>
                else s)
      in if \<not> truthy (ls_userDescription data) \<and> Some h \<noteq> sourceHash (interactionStatus s1)
         then (s1, [ConsoleLog (ls_name data)])
         else ((resetPlaceParameters (s1\<lparr>interactionStatus := no_status\<rparr>))\<lparr>docSourceHash := Some h\<rparr>,
               [PersistSession,
                PublishLoadReady (ls_viewId data) h (ls_name data) (ls_userDescription data)]))"

definition applyPlace :: "place_data \<Rightarrow> pdf_model \<Rightarrow> pdf_model \<times> effect list" where
  "applyPlace data s =
     (s\<lparr>scroll := \<lparr>page = Some (pd_page data), top = pd_top data, left = pd_left data\<rparr>,
        relativeScale := pd_scale data,
        pagesRotation := pd_rotation data,
        scrollMode := pd_scrollMode data\<rparr>,
      [PublishPlaceUpdate (pd_viewId data)])"

definition setPlace :: "int \<Rightarrow> place_data \<Rightarrow> pdf_model \<Rightarrow> pdf_model \<times> effect list" where
  "setPlace now data s =
     (case applyLockIfAvailable now
             \<lparr>ld_viewId = pd_viewId data, ld_sourceHash = None, ld_lock = Place\<rparr> s of
        (ok, s', es) \<Rightarrow>
          if \<not> ok then (s', es)
          else (case applyPlace data s' of (s'', es') \<Rightarrow> (s'', es @ es')))"

definition endInteraction :: "string \<Rightarrow> pdf_model \<Rightarrow> pdf_model" where
  "endInteraction v s =
     (if viewId (interactionStatus s) = Some v then releaseInteractionStatus s else s)"

definition requestRotation ::
  "int \<Rightarrow> rotation_request \<Rightarrow> pdf_model \<Rightarrow> pdf_model \<times> effect list" where
  "requestRotation now data s =
     (case applyLockIfAvailable now
             \<lparr>ld_viewId = rr_viewId data, ld_sourceHash = None, ld_lock = Place\<rparr> s of
        (ok, s', es) \<Rightarrow> if ok then (s', es @ [PublishRotationApproved data]) else (s', es))"

definition requestScrollMode ::
  "int \<Rightarrow> scrollmode_request \<Rightarrow> pdf_model \<Rightarrow> pdf_model \<times> effect list" where
  "requestScrollMode now data s =
     (case applyLockIfAvailable now
             \<lparr>ld_viewId = sm_viewId data, ld_sourceHash = None, ld_lock = Place\<rparr> s of
        (ok, s', es) \<Rightarrow> if ok then (s', es @ [PublishScrollModeApproved data]) else (s', es))"

text \<open>\<^verbatim>\<open>now - time === Q.PLACE_TIMEOUT\<close> is false when \<^verbatim>\<open>time\<close> is undefined.\<close>

definition checkInteractionStatus :: "int \<Rightarrow> pdf_model \<Rightarrow> pdf_model" where
  "checkInteractionStatus now s =
     (if lock (interactionStatus s) = Some Place
         \<and> (case time (interactionStatus s) of
              None \<Rightarrow> False
            | Some t \<Rightarrow> now - t = PLACE_TIMEOUT)
      then releaseInteractionStatus s
      else s)"

definition onViewExit :: "string \<Rightarrow> pdf_model \<Rightarrow> pdf_model" where
  "onViewExit v s =
     (if viewId (interactionStatus s) = Some v then releaseInteractionStatus s else s)"

subsection \<open>Creation and restoration\<close>

text \<open>
  \<^verbatim>\<open>restoreFromPersisted\<close> rebuilds the handle table from the snapshot and, when
  the snapshot names an open document, replays \<^verbatim>\<open>startLoad\<close> for it with the
  description \<^verbatim>\<open>"recovered session"\<close>.  A model has no view id, so the replayed
  message carries none.  Destructuring a missing table entry throws.
\<close>

definition restoreFromPersisted ::
  "persisted_data \<Rightarrow> pdf_model \<Rightarrow> js_error + pdf_model \<times> effect list" where
  "restoreFromPersisted p s =
     (let s1 = s\<lparr>knownHandles :=
                   (\<lambda>h. map_option (\<lambda>(i, n). (DataHandle i, n)) (p_handles p h))\<rparr>
      in case p_docSourceHash p of
           None \<Rightarrow> Inr (s1, [])
         | Some d \<Rightarrow>
             if d = [] then Inr (s1, [])
             else (case knownHandles s1 d of
                     None \<Rightarrow> Inl TypeError
                   | Some (hdl, n) \<Rightarrow>
                       Inr (startLoad \<lparr>ls_viewId = None, ls_sourceHash = d,
                                       ls_handle = hdl, ls_name = n,
                                       ls_userDescription = Some ''recovered session''\<rparr> s1)))"

definition fresh_model :: pdf_model where
  "fresh_model =
     \<lparr>scroll = \<lparr>page = None, top = 0, left = 0\<rparr>,
      relativeScale = ScaleNumber 1,
      pagesRotation = 0,
      scrollMode = 0,
      interactionStatus = no_status,
      knownHandles = Map.empty,
      docSourceHash = None\<rparr>"

definition init :: "persisted_data option \<Rightarrow> js_error + pdf_model \<times> effect list" where
  "init persisted =
     (case persisted of
        None \<Rightarrow> Inr (fresh_model, [])
      | Some p \<Rightarrow> restoreFromPersisted p fresh_model)"

subsection \<open>Message delivery\<close>

text \<open>
  The messages the model handles: the seven subscriptions of \<^verbatim>\<open>init\<close> and the
  future message that \<^verbatim>\<open>applyLockIfAvailable\<close> sends to the model itself.
\<close>

datatype command =
    SetPlace place_data
  | RequestLoad load_request
  | StartLoad load_start
  | RequestRotation rotation_request
  | RequestScrollMode scrollmode_request
  | EndInteraction string
  | ViewExit string
  | CheckInteractionStatus

fun deliver :: "int \<Rightarrow> command \<Rightarrow> pdf_model \<Rightarrow> pdf_model \<times> effect list" where
  "deliver now (SetPlace d) s = setPlace now d s"
| "deliver now (RequestLoad d) s = requestLoad now d s"
| "deliver now (StartLoad d) s = startLoad d s"
| "deliver now (RequestRotation d) s = requestRotation now d s"
| "deliver now (RequestScrollMode d) s = requestScrollMode now d s"
| "deliver now (EndInteraction v) s = (endInteraction v s, [])"
| "deliver now (ViewExit v) s = (onViewExit v s, [])"
| "deliver now CheckInteractionStatus s = (checkInteractionStatus now s, [])"

text \<open>
  A run delivers a list of messages, each at its logical time, in order, and
  collects the effects.
\<close>

fun run :: "(int \<times> command) list \<Rightarrow> pdf_model \<times> effect list \<Rightarrow> pdf_model \<times> effect list" where
  "run [] acc = acc"
| "run ((now, c) # cs) (s, out) =
     (case deliver now c s of (s', es) \<Rightarrow> run cs (s', out @ es))"

subsection \<open>Properties of states and runs\<close>

text \<open>
  The shape of the lock record: either \<^verbatim>\<open>{}\<close>, or one holder with one kind and
  its acquisition time, carrying a source hash exactly when the kind is
  \<^verbatim>\<open>"load"\<close>.
\<close>

definition single_lock :: "interaction_status \<Rightarrow> bool" where
  "single_lock st =
     (case viewId st of
        None \<Rightarrow> st = no_status
      | Some v \<Rightarrow>
          (case lock st of
             None \<Rightarrow> False
           | Some Place \<Rightarrow> sourceHash st = None \<and> time st \<noteq> None
           | Some Load \<Rightarrow> sourceHash st \<noteq> None \<and> time st \<noteq> None))"

text \<open>
  View ids are issued by the replication layer and are never empty.  A state
  whose holder, if any, has such an id:
\<close>

definition holder_named :: "interaction_status \<Rightarrow> bool" where
  "holder_named st = (viewId st \<noteq> Some [])"

fun named_sender :: "command \<Rightarrow> bool" where
  "named_sender (SetPlace d) = (pd_viewId d \<noteq> [])"
| "named_sender (RequestLoad d) = (lr_viewId d \<noteq> [])"
| "named_sender (RequestRotation d) = (rr_viewId d \<noteq> [])"
| "named_sender (RequestScrollMode d) = (sm_viewId d \<noteq> [])"
| "named_sender c = True"

text \<open>The sender of a command of the place class, none for the other commands.\<close>

fun place_sender :: "command \<Rightarrow> string option" where
  "place_sender (SetPlace d) = Some (pd_viewId d)"
| "place_sender (RequestRotation d) = Some (rr_viewId d)"
| "place_sender (RequestScrollMode d) = Some (sm_viewId d)"
| "place_sender c = None"

text \<open>The four fields that make up the shared place.\<close>

definition place_state :: "pdf_model \<Rightarrow> scroll_pos \<times> scale_value \<times> int \<times> int" where
  "place_state s = (scroll s, relativeScale s, pagesRotation s, scrollMode s)"

text \<open>The lock record a place grant to \<open>v\<close> at time \<open>t\<close> writes.\<close>

definition lease :: "string \<Rightarrow> int \<Rightarrow> interaction_status" where
  "lease v t = \<lparr>viewId = Some v, lock = Some Place, sourceHash = None, time = Some t\<rparr>"

text \<open>
  The source hash of the latest \<^verbatim>\<open>load:approved\<close> event among the effects of a
  run, if there is one.
\<close>

fun last_approved :: "effect list \<Rightarrow> string option" where
  "last_approved [] = None"
| "last_approved (e # es) =
     (case last_approved es of
        Some h \<Rightarrow> Some h
      | None \<Rightarrow> (case e of PublishLoadApproved d \<Rightarrow> Some (lr_sourceHash d) | _ \<Rightarrow> None))"

text \<open>
  A message that leaves a lease of \<open>v\<close> granted at \<open>t\<close> alone: it does not
  refresh it (no place command of \<open>v\<close>), release it (no end of interaction or
  exit of \<open>v\<close>), pre-empt it (no load request) or overwrite it (no load start
  with a user description), and a lease check among them fires before
  \<open>t + PLACE_TIMEOUT\<close>.
\<close>

fun leaves_lease :: "string \<Rightarrow> int \<Rightarrow> int \<times> command \<Rightarrow> bool" where
  "leaves_lease v t (now, SetPlace d) = (pd_viewId d \<noteq> v)"
| "leaves_lease v t (now, RequestRotation d) = (rr_viewId d \<noteq> v)"
| "leaves_lease v t (now, RequestScrollMode d) = (sm_viewId d \<noteq> v)"
| "leaves_lease v t (now, RequestLoad d) = False"
| "leaves_lease v t (now, StartLoad d) = (\<not> truthy (ls_userDescription d))"
| "leaves_lease v t (now, EndInteraction w) = (w \<noteq> v)"
| "leaves_lease v t (now, ViewExit w) = (w \<noteq> v)"
| "leaves_lease v t (now, CheckInteractionStatus) = (now < t + PLACE_TIMEOUT)"

subsection \<open>The view's side of a load\<close>

text \<open>\<^verbatim>\<open>getUserDescription\<close>: \<^verbatim>\<open>this.userDescription || this.defaultUserDescription\<close>,
  the default being \<^verbatim>\<open>`view ${this.viewId.slice(0, 2)}`\<close>.\<close>

definition defaultUserDescription :: "string \<Rightarrow> string" where
  "defaultUserDescription vid = ''view '' @ take 2 vid"

definition getUserDescription :: "string option \<Rightarrow> string \<Rightarrow> string" where
  "getUserDescription userDescription vid =
     (case userDescription of
        None \<Rightarrow> defaultUserDescription vid
      | Some u \<Rightarrow> if u = [] then defaultUserDescription vid else u)"

text \<open>
  The end of \<^verbatim>\<open>uploadFile\<close>, after the file was admitted and hashed: nothing is
  published for the document the view already shows; a hash the model knows
  goes straight to \<^verbatim>\<open>load:start\<close> with the user description; any other hash
  asks with \<^verbatim>\<open>load:request\<close>.
\<close>

definition uploadFile_publish ::
  "pdf_model \<Rightarrow> string option \<Rightarrow> string \<Rightarrow> string option \<Rightarrow> string \<Rightarrow> string \<Rightarrow> command option" where
  "uploadFile_publish model viewDoc vid userDesc h fileName =
     (if Some h = viewDoc then None
      else
        (let userDescription = getUserDescription userDesc vid
         in case knownHandles model h of
              Some (hdl, n) \<Rightarrow>
                Some (StartLoad \<lparr>ls_viewId = Some vid, ls_sourceHash = h, ls_handle = hdl,
                                 ls_name = n, ls_userDescription = Some userDescription\<rparr>)
            | None \<Rightarrow>
                Some (RequestLoad \<lparr>lr_viewId = vid, lr_sourceHash = h, lr_name = fileName,
                                   lr_userDescription = Some userDescription\<rparr>)))"

subsection \<open>The uploader's source hash\<close>











subsection \<open>From the views to the handlers\<close>

text \<open>
  A published message reaches the handlers subscribed to its scope and event.
  The subscriptions of the model are those of \<^verbatim>\<open>init\<close>, in its order.
\<close>

datatype handler =
    On_requestLoad
  | On_startLoad
  | On_setPlace
  | On_endInteraction
  | On_requestRotation
  | On_requestScrollMode
  | On_onViewExit

definition subscriptions :: "string \<Rightarrow> ((string \<times> string) \<times> handler) list" where
  "subscriptions sessionId =
     [((''load'', ''request''), On_requestLoad),
      ((''load'', ''start''), On_startLoad),
      ((''place'', ''set''), On_setPlace),
      ((''place'', ''endInteraction''), On_endInteraction),
      ((''rotation'', ''request''), On_requestRotation),
      ((''scrollMode'', ''request''), On_requestScrollMode),
      ((sessionId, ''view-exit''), On_onViewExit)]"

text \<open>
  What a view publishes to the model, one constructor for each
  \<^verbatim>\<open>this.publish\<close> of \<^verbatim>\<open>PDFView\<close>, with the scope and event it is published
  under.
\<close>

datatype view_publish =
    Publish_scroll_endInteraction string
  | Publish_place_set place_data
  | Publish_rotation_request rotation_request
  | Publish_scrollMode_request scrollmode_request
  | Publish_load_start load_start
  | Publish_load_request load_request

fun topic :: "view_publish \<Rightarrow> string \<times> string" where
  "topic (Publish_scroll_endInteraction v) = (''scroll'', ''endInteraction'')"
| "topic (Publish_place_set d) = (''place'', ''set'')"
| "topic (Publish_rotation_request d) = (''rotation'', ''request'')"
| "topic (Publish_scrollMode_request d) = (''scrollMode'', ''request'')"
| "topic (Publish_load_start d) = (''load'', ''start'')"
| "topic (Publish_load_request d) = (''load'', ''request'')"

text \<open>
  The command a handler runs on a published message.  A handler is only ever
  reached by messages with the payload it destructures; the other pairs do
  not occur.
\<close>

fun handler_command :: "handler \<Rightarrow> view_publish \<Rightarrow> command option" where
  "handler_command On_endInteraction (Publish_scroll_endInteraction v) = Some (EndInteraction v)"
| "handler_command On_setPlace (Publish_place_set d) = Some (SetPlace d)"
| "handler_command On_requestRotation (Publish_rotation_request d) = Some (RequestRotation d)"
| "handler_command On_requestScrollMode (Publish_scrollMode_request d) = Some (RequestScrollMode d)"
| "handler_command On_startLoad (Publish_load_start d) = Some (StartLoad d)"
| "handler_command On_requestLoad (Publish_load_request d) = Some (RequestLoad d)"
| "handler_command h p = None"

definition received :: "string \<Rightarrow> view_publish \<Rightarrow> command option" where
  "received sessionId p =
     (case map_of (subscriptions sessionId) (topic p) of
        None \<Rightarrow> None
      | Some h \<Rightarrow> handler_command h p)"

definition publish :: "string \<Rightarrow> int \<Rightarrow> view_publish \<Rightarrow> pdf_model \<Rightarrow> pdf_model \<times> effect list" where
  "publish sessionId now p s =
     (case received sessionId p of
        None \<Rightarrow> (s, [])
      | Some c \<Rightarrow> deliver now c s)"

text \<open>
  \<^verbatim>\<open>docMouseUp\<close>: when the view was tracking a drag it tells the model that
  its interaction has ended.
\<close>

definition docMouseUp :: "bool \<Rightarrow> string \<Rightarrow> view_publish option" where
  "docMouseUp trackingMouseDrag vid =
     (if \<not> trackingMouseDrag then None else Some (Publish_scroll_endInteraction vid))"

subsection \<open>Example messages and states\<close>

text \<open>
  Messages and states used to evaluate the handlers: a move to a page with
  the place of the specification's scenario, a load request and a load start
  for a hash, a rotation and a scroll mode request, and the fresh model with
  a given lock record.
\<close>

definition place_at :: "string \<Rightarrow> int \<Rightarrow> place_data" where
  "place_at v p =
     \<lparr>pd_viewId = v, pd_page = p, pd_top = 0, pd_left = 0, pd_scale = ScaleToken ''1.0'',
      pd_rotation = 0, pd_scrollMode = 0\<rparr>"

definition load_of :: "string \<Rightarrow> string \<Rightarrow> load_request" where
  "load_of v h =
     \<lparr>lr_viewId = v, lr_sourceHash = h, lr_name = ''a.pdf'', lr_userDescription = Some ''view ab''\<rparr>"

definition start_of :: "string \<Rightarrow> string \<Rightarrow> string option \<Rightarrow> load_start" where
  "start_of v h u =
     \<lparr>ls_viewId = Some v, ls_sourceHash = h, ls_handle = DataHandle h, ls_name = ''a.pdf'',
      ls_userDescription = u\<rparr>"

definition rotate_by :: "string \<Rightarrow> int \<Rightarrow> rotation_request" where
  "rotate_by v r = \<lparr>rr_viewId = v, rr_rotation = r\<rparr>"

definition mode_by :: "string \<Rightarrow> int \<Rightarrow> scrollmode_request" where
  "mode_by v m = \<lparr>sm_viewId = v, sm_mode = m\<rparr>"

definition held :: "interaction_status \<Rightarrow> pdf_model" where
  "held st = fresh_model\<lparr>interactionStatus := st\<rparr>"

definition load_lock :: "string \<Rightarrow> string \<Rightarrow> int \<Rightarrow> interaction_status" where
  "load_lock v h t = \<lparr>viewId = Some v, lock = Some Load, sourceHash = Some h, time = Some t\<rparr>"

text \<open>A model that already knows the hash \<open>H1\<close>.\<close>

definition known_H1 :: pdf_model where
  "known_H1 = fresh_model\<lparr>knownHandles := [''H1'' \<mapsto> (DataHandle ''first'', ''first.pdf'')]\<rparr>"





section \<open>Properties\<close>

lemmas handler_defs = requestLoad_def setPlace_def requestRotation_def requestScrollMode_def
  applyLockIfAvailable_def applyPlace_def startLoad_def endInteraction_def onViewExit_def
  checkInteractionStatus_def releaseInteractionStatus_def resetPlaceParameters_def

lemmas fixture_defs = place_at_def load_of_def start_of_def rotate_by_def mode_by_def held_def
  load_lock_def lease_def fresh_model_def no_status_def PLACE_TIMEOUT_def truthy_def

subsection \<open>Runs and invariants\<close>

lemma run_invariant:
  assumes step: "\<And>now c s. (now, c) \<in> set cs \<Longrightarrow> P s \<Longrightarrow> P (fst (deliver now c s))"
    and "P s"
  shows "P (fst (run cs (s, out)))"
  using assms
proof (induction cs arbitrary: s out)
  case Nil
  then show ?case by simp
next
  case (Cons m cs)
  obtain now c where m: "m = (now, c)" by (cases m)
  obtain s' es where d: "deliver now c s = (s', es)" by (cases "deliver now c s")
  have "P s'" using Cons.prems(1)[of now c s] Cons.prems(2) by (simp add: m d)
  then have "P (fst (run cs (s', out @ es)))"
    using Cons.IH[of s' "out @ es"] Cons.prems(1) by simp
  then show ?case by (simp add: m d)
qed

lemma single_lock_deliver:
  "single_lock (interactionStatus s) \<Longrightarrow> single_lock (interactionStatus (fst (deliver now c s)))"
  by (cases c)
    (auto simp: handler_defs Let_def single_lock_def no_status_def
      split: option.splits lock_kind.splits)

lemma holder_named_deliver:
  "holder_named (interactionStatus s) \<Longrightarrow> named_sender c \<Longrightarrow>
   holder_named (interactionStatus (fst (deliver now c s)))"
  by (cases c)
    (auto simp: handler_defs Let_def holder_named_def no_status_def
      split: option.splits lock_kind.splits)

lemma init_status:
  "init persisted = Inr (s, out) \<Longrightarrow> interactionStatus s = no_status"
  by (auto simp: init_def restoreFromPersisted_def fresh_model_def startLoad_def Let_def
      resetPlaceParameters_def truthy_def split: option.splits if_splits prod.splits)

lemma rejected_place:
  assumes "lock (interactionStatus s) = Some Place" "viewId (interactionStatus s) = Some h"
    "h \<noteq> []" "place_sender c = Some w" "w \<noteq> h"
  shows "deliver now c s = (s, [])"
  using assms by (cases c) (auto simp: handler_defs Let_def truthy_def)

text \<open>
  Every state reached from a created model by messages whose senders carry a
  view id has a well-formed lock record with a named holder.
\<close>

lemma reachable_lock_record:
  assumes "init persisted = Inr start"
    and "\<forall>m \<in> set cs. named_sender (snd m)"
  shows "single_lock (interactionStatus (fst (run cs start)))
       \<and> holder_named (interactionStatus (fst (run cs start)))"
proof -
  obtain s0 out0 where start: "start = (s0, out0)" by (cases start)
  have st0: "interactionStatus s0 = no_status"
    using assms(1) init_status by (simp add: start)
  let ?P = "\<lambda>s. single_lock (interactionStatus s) \<and> holder_named (interactionStatus s)"
  have "?P s0"
    by (simp add: st0 single_lock_def holder_named_def no_status_def)
  moreover have "\<And>now c s. (now, c) \<in> set cs \<Longrightarrow> ?P s \<Longrightarrow> ?P (fst (deliver now c s))"
    using assms(2) single_lock_deliver holder_named_deliver by fastforce
  ultimately have "?P (fst (run cs (s0, out0)))"
    using run_invariant[of cs ?P s0 out0] by blast
  then show ?thesis by (simp add: start)
qed

subsection \<open>One lock, one holder\<close>

text \<open>
  Claim C1.  Start from a model as \<^verbatim>\<open>init\<close> creates it, with or without a
  snapshot, and deliver any list of messages at any logical times, the senders
  of the arbitrated messages carrying a view id.  In the state reached the
  lock record is either empty or names one holder with one kind; and if it is
  a place lease of \<open>h\<close>, a \<^verbatim>\<open>setPlace\<close>, \<^verbatim>\<open>requestRotation\<close> or
  \<^verbatim>\<open>requestScrollMode\<close> of any other view \<open>w\<close> changes nothing in the model and
  publishes nothing.
\<close>

theorem single_lock_holder:
  assumes "init persisted = Inr start"
    and "\<forall>m \<in> set cs. named_sender (snd m)"
  shows "single_lock (interactionStatus (fst (run cs start)))
       \<and> (\<forall>now c h w.
            lock (interactionStatus (fst (run cs start))) = Some Place
            \<and> viewId (interactionStatus (fst (run cs start))) = Some h
            \<and> place_sender c = Some w \<and> w \<noteq> h
            \<longrightarrow> deliver now c (fst (run cs start)) = (fst (run cs start), []))"
proof -
  have P: "single_lock (interactionStatus (fst (run cs start)))"
    "holder_named (interactionStatus (fst (run cs start)))"
    using reachable_lock_record[OF assms] by simp_all
  then have "\<And>h. viewId (interactionStatus (fst (run cs start))) = Some h \<Longrightarrow> h \<noteq> []"
    by (auto simp: holder_named_def)
  then show ?thesis
    using P(1) rejected_place by auto
qed

text \<open>
  After \<open>A\<close> has moved to page 3 at time 0 it holds the lease, and a move of
  \<open>B\<close> at time 5 is dropped.
\<close>

theorem single_lock_holder_witness:
  "single_lock (interactionStatus (fst (run [(0, SetPlace (place_at ''A'' 3))] (fresh_model, []))))
   \<and> deliver 5 (SetPlace (place_at ''B'' 7))
       (fst (run [(0, SetPlace (place_at ''A'' 3))] (fresh_model, [])))
     = (fst (run [(0, SetPlace (place_at ''A'' 3))] (fresh_model, [])), [])"
proof -
  have i: "init None = Inr (fresh_model, [])" by (simp add: init_def)
  have n: "\<forall>m \<in> set [(0::int, SetPlace (place_at ''A'' 3))]. named_sender (snd m)"
    by (simp add: place_at_def)
  have l: "lock (interactionStatus (fst (run [(0, SetPlace (place_at ''A'' 3))] (fresh_model, []))))
             = Some Place"
    "viewId (interactionStatus (fst (run [(0, SetPlace (place_at ''A'' 3))] (fresh_model, []))))
       = Some ''A''"
    by (simp_all add: handler_defs fixture_defs Let_def)
  have p: "place_sender (SetPlace (place_at ''B'' 7)) = Some ''B''" "''B'' \<noteq> ''A''"
    by (simp_all add: place_at_def)
  show ?thesis
    using single_lock_holder[OF i n] l p by blast
qed

subsection \<open>Load requests\<close>

text \<open>
  Claim C2.  In every state, \<^verbatim>\<open>requestLoad\<close> is rejected, leaving the model as
  it is and publishing nothing, exactly when the lock is a load lock for the
  requested hash.  In every other state the lock becomes a load lock for that
  hash held by the requester, acquired now, nothing else changes, and
  \<^verbatim>\<open>load:approved\<close> is published with the request.
\<close>

theorem requestLoad_arbitration:
  "(lock (interactionStatus s) = Some Load
      \<and> sourceHash (interactionStatus s) = Some (lr_sourceHash d)
      \<longrightarrow> requestLoad now d s = (s, []))
   \<and> (\<not> (lock (interactionStatus s) = Some Load
          \<and> sourceHash (interactionStatus s) = Some (lr_sourceHash d))
      \<longrightarrow> requestLoad now d s =
            (s\<lparr>interactionStatus := load_lock (lr_viewId d) (lr_sourceHash d) now\<rparr>,
             [PublishLoadApproved d]))"
  by (simp add: requestLoad_def applyLockIfAvailable_def Let_def load_lock_def)

text \<open>
  A load of \<open>H1\<close> requested by \<open>B\<close> pre-empts the place lease of \<open>A\<close>; the same
  request again, from \<open>C\<close>, is rejected; a request for \<open>H2\<close> replaces it.
\<close>

theorem requestLoad_arbitration_witness:
  "requestLoad 5 (load_of ''B'' ''H1'') (held (lease ''A'' 0))
     = (held (load_lock ''B'' ''H1'' 5), [PublishLoadApproved (load_of ''B'' ''H1'')])
   \<and> requestLoad 6 (load_of ''C'' ''H1'') (held (load_lock ''B'' ''H1'' 5))
     = (held (load_lock ''B'' ''H1'' 5), [])
   \<and> requestLoad 7 (load_of ''C'' ''H2'') (held (load_lock ''B'' ''H1'' 5))
     = (held (load_lock ''C'' ''H2'' 7), [PublishLoadApproved (load_of ''C'' ''H2'')])"
  using requestLoad_arbitration[of "held (lease ''A'' 0)" "load_of ''B'' ''H1''" 5]
    requestLoad_arbitration[of "held (load_lock ''B'' ''H1'' 5)" "load_of ''C'' ''H1''" 6]
    requestLoad_arbitration[of "held (load_lock ''B'' ''H1'' 5)" "load_of ''C'' ''H2''" 7]
  by (simp add: fixture_defs)

subsection \<open>Moves\<close>

text \<open>
  Claim C5.  In a state whose lock record is well formed and whose holder, if
  any, has a view id (every reachable state, by \<open>reachable_lock_record\<close>),
  \<^verbatim>\<open>setPlace\<close> is granted exactly when no lock is held or the
  lock is a place lock of the sender.  On grant the lock record becomes the
  sender's lease acquired now, the check is scheduled one lease duration
  ahead, the six fields of the message replace the place, and
  \<^verbatim>\<open>place:update\<close> is published with the sender's id.  Otherwise the model is
  unchanged and nothing is published.
\<close>

theorem setPlace_arbitration:
  assumes "single_lock (interactionStatus s)" and "holder_named (interactionStatus s)"
  shows "((interactionStatus s = no_status
           \<or> (lock (interactionStatus s) = Some Place
              \<and> viewId (interactionStatus s) = Some (pd_viewId d)))
          \<longrightarrow> setPlace now d s =
                (s\<lparr>interactionStatus := lease (pd_viewId d) now,
                   scroll := \<lparr>page = Some (pd_page d), top = pd_top d, left = pd_left d\<rparr>,
                   relativeScale := pd_scale d,
                   pagesRotation := pd_rotation d,
                   scrollMode := pd_scrollMode d\<rparr>,
                 [FutureCheckInteractionStatus (now + PLACE_TIMEOUT),
                  PublishPlaceUpdate (pd_viewId d)]))
       \<and> (\<not> (interactionStatus s = no_status
              \<or> (lock (interactionStatus s) = Some Place
                 \<and> viewId (interactionStatus s) = Some (pd_viewId d)))
          \<longrightarrow> setPlace now d s = (s, []))"
  using assms
  by (auto simp: setPlace_def applyLockIfAvailable_def applyPlace_def Let_def lease_def
      single_lock_def holder_named_def truthy_def no_status_def
      split: option.splits lock_kind.splits)

text \<open>
  A first move on a free model; a refresh by the holder; a move by another
  view against a lease; a move by the holder of a load lock.
\<close>

theorem setPlace_arbitration_witness:
  "setPlace 0 (place_at ''A'' 3) fresh_model
     = (fresh_model\<lparr>interactionStatus := lease ''A'' 0,
          scroll := \<lparr>page = Some 3, top = 0, left = 0\<rparr>,
          relativeScale := ScaleToken ''1.0''\<rparr>,
        [FutureCheckInteractionStatus 1000, PublishPlaceUpdate ''A''])
   \<and> setPlace 400 (place_at ''A'' 4) (held (lease ''A'' 0))
     = (fresh_model\<lparr>interactionStatus := lease ''A'' 400,
          scroll := \<lparr>page = Some 4, top = 0, left = 0\<rparr>,
          relativeScale := ScaleToken ''1.0''\<rparr>,
        [FutureCheckInteractionStatus 1400, PublishPlaceUpdate ''A''])
   \<and> setPlace 5 (place_at ''B'' 7) (held (lease ''A'' 0)) = (held (lease ''A'' 0), [])
   \<and> setPlace 5 (place_at ''B'' 7) (held (load_lock ''B'' ''H1'' 0)) = (held (load_lock ''B'' ''H1'' 0), [])"
proof -
  have a: "single_lock (interactionStatus fresh_model)" "holder_named (interactionStatus fresh_model)"
    by (simp_all add: single_lock_def holder_named_def fixture_defs)
  have b: "single_lock (interactionStatus (held (lease ''A'' 0)))"
    "holder_named (interactionStatus (held (lease ''A'' 0)))"
    by (simp_all add: single_lock_def holder_named_def fixture_defs)
  have c: "single_lock (interactionStatus (held (load_lock ''B'' ''H1'' 0)))"
    "holder_named (interactionStatus (held (load_lock ''B'' ''H1'' 0)))"
    by (simp_all add: single_lock_def holder_named_def fixture_defs)
  show ?thesis
    using setPlace_arbitration[OF a, of "place_at ''A'' 3" 0]
      setPlace_arbitration[OF b, of "place_at ''A'' 4" 400]
      setPlace_arbitration[OF b, of "place_at ''B'' 7" 5]
      setPlace_arbitration[OF c, of "place_at ''B'' 7" 5]
    by (simp add: fixture_defs)
qed

subsection \<open>End of an interaction\<close>

text \<open>
  The handler compares the holder and nothing else.
\<close>

lemma endInteraction_holder:
  "endInteraction v s =
     (if viewId (interactionStatus s) = Some v then s\<lparr>interactionStatus := no_status\<rparr> else s)"
  by (simp add: endInteraction_def releaseInteractionStatus_def)

text \<open>
  The other messages of a view reach their handlers.
\<close>

lemma received_others:
  "received sid (Publish_place_set d) = Some (SetPlace d)"
  "received sid (Publish_rotation_request r) = Some (RequestRotation r)"
  "received sid (Publish_scrollMode_request m) = Some (RequestScrollMode m)"
  "received sid (Publish_load_start l) = Some (StartLoad l)"
  "received sid (Publish_load_request q) = Some (RequestLoad q)"
  by (simp_all add: received_def subscriptions_def)

text \<open>
  Claim C6.  The model subscribes \<^verbatim>\<open>endInteraction\<close> under the scope
  \<^verbatim>\<open>place\<close>, and the view publishes the end of its interaction under the
  scope \<^verbatim>\<open>scroll\<close>, so the message reaches no handler.  Here \<open>A\<close> has moved at
  time 0 and holds the place lease; its mouse-up at time 500 publishes the
  message, the message is not received, and the lease of \<open>A\<close> is still held,
  where the handler would have cleared it.
\<close>

theorem endInteraction_not_received:
  "run [(0, SetPlace (place_at ''A'' 3))] (fresh_model, [])
     = (fst (setPlace 0 (place_at ''A'' 3) fresh_model),
        [FutureCheckInteractionStatus 1000, PublishPlaceUpdate ''A''])
   \<and> interactionStatus (fst (setPlace 0 (place_at ''A'' 3) fresh_model)) = lease ''A'' 0
   \<and> docMouseUp True ''A'' = Some (Publish_scroll_endInteraction ''A'')
   \<and> received sid (Publish_scroll_endInteraction ''A'') = None
   \<and> publish sid 500 (Publish_scroll_endInteraction ''A'')
         (fst (setPlace 0 (place_at ''A'' 3) fresh_model))
     = (fst (setPlace 0 (place_at ''A'' 3) fresh_model), [])
   \<and> interactionStatus
        (fst (publish sid 500 (Publish_scroll_endInteraction ''A'')
               (fst (setPlace 0 (place_at ''A'' 3) fresh_model))))
     = lease ''A'' 0
   \<and> interactionStatus
        (endInteraction ''A'' (fst (setPlace 0 (place_at ''A'' 3) fresh_model)))
     = no_status"
  by (simp add: publish_def received_def subscriptions_def docMouseUp_def
      handler_defs fixture_defs Let_def)

subsection \<open>Rotation and scroll mode requests\<close>

text \<open>
  Against claim C7 as stated: on a fresh model the rotation request of \<open>A\<close> for
  90 degrees is approved, and the rotation of the model stays 0.
\<close>

theorem requestRotation_counterexample:
  "snd (requestRotation 0 (rotate_by ''A'' 90) fresh_model)
     = [FutureCheckInteractionStatus 1000, PublishRotationApproved (rotate_by ''A'' 90)]
   \<and> pagesRotation (fst (requestRotation 0 (rotate_by ''A'' 90) fresh_model)) = 0
   \<and> rr_rotation (rotate_by ''A'' 90) = 90"
  by (simp add: requestRotation_def applyLockIfAvailable_def Let_def fixture_defs)

text \<open>
  Claim C7, amended.  \<^verbatim>\<open>requestRotation\<close> and \<^verbatim>\<open>requestScrollMode\<close> never change
  the place of the model, neither the requested field nor any other.  When
  the request is approved the lock record becomes the sender's lease acquired
  now, the check is scheduled, and the request's own approval event is
  published with the request as its payload; no \<^verbatim>\<open>place:update\<close> is published.
  When it is not approved nothing changes and nothing is published.
\<close>

theorem request_approval_only:
  "place_state (fst (requestRotation now r s)) = place_state s
   \<and> place_state (fst (requestScrollMode now m s)) = place_state s
   \<and> (PublishRotationApproved r \<in> set (snd (requestRotation now r s))
      \<longrightarrow> requestRotation now r s =
            (s\<lparr>interactionStatus := lease (rr_viewId r) now\<rparr>,
             [FutureCheckInteractionStatus (now + PLACE_TIMEOUT), PublishRotationApproved r]))
   \<and> (PublishRotationApproved r \<notin> set (snd (requestRotation now r s))
      \<longrightarrow> requestRotation now r s = (s, []))
   \<and> (PublishScrollModeApproved m \<in> set (snd (requestScrollMode now m s))
      \<longrightarrow> requestScrollMode now m s =
            (s\<lparr>interactionStatus := lease (sm_viewId m) now\<rparr>,
             [FutureCheckInteractionStatus (now + PLACE_TIMEOUT), PublishScrollModeApproved m]))
   \<and> (PublishScrollModeApproved m \<notin> set (snd (requestScrollMode now m s))
      \<longrightarrow> requestScrollMode now m s = (s, []))"
  by (simp add: requestRotation_def requestScrollMode_def applyLockIfAvailable_def Let_def
      lease_def place_state_def)

theorem request_approval_only_witness:
  "place_state (fst (requestRotation 0 (rotate_by ''A'' 90) fresh_model)) = place_state fresh_model
   \<and> requestRotation 0 (rotate_by ''A'' 90) fresh_model
     = (held (lease ''A'' 0),
        [FutureCheckInteractionStatus 1000, PublishRotationApproved (rotate_by ''A'' 90)])
   \<and> requestRotation 5 (rotate_by ''B'' 90) (held (lease ''A'' 0)) = (held (lease ''A'' 0), [])
   \<and> requestScrollMode 0 (mode_by ''A'' 1) fresh_model
     = (held (lease ''A'' 0),
        [FutureCheckInteractionStatus 1000, PublishScrollModeApproved (mode_by ''A'' 1)])
   \<and> requestScrollMode 5 (mode_by ''B'' 1) (held (lease ''A'' 0)) = (held (lease ''A'' 0), [])"
  using request_approval_only[of 0 "rotate_by ''A'' 90" fresh_model "mode_by ''A'' 1"]
    request_approval_only[of 5 "rotate_by ''B'' 90" "held (lease ''A'' 0)" "mode_by ''B'' 1"]
  by (simp add: requestRotation_def requestScrollMode_def applyLockIfAvailable_def Let_def fixture_defs)

subsection \<open>Superseded loads\<close>

lemma last_approved_append:
  "last_approved (xs @ ys) =
     (case last_approved ys of Some h \<Rightarrow> Some h | None \<Rightarrow> last_approved xs)"
  by (induction xs) (auto split: option.splits effect.splits)

lemma pending_step:
  assumes "sourceHash (interactionStatus s) = None
           \<or> sourceHash (interactionStatus s) = last_approved out"
    and "deliver now c s = (s', es)"
  shows "sourceHash (interactionStatus s') = None
         \<or> sourceHash (interactionStatus s') = last_approved (out @ es)"
  using assms
  by (cases c)
    (auto simp: handler_defs Let_def no_status_def last_approved_append
      split: if_splits option.splits)

lemma pending_run:
  assumes "sourceHash (interactionStatus s) = None
           \<or> sourceHash (interactionStatus s) = last_approved out"
  shows "sourceHash (interactionStatus (fst (run cs (s, out)))) = None
         \<or> sourceHash (interactionStatus (fst (run cs (s, out)))) = last_approved (snd (run cs (s, out)))"
  using assms
proof (induction cs arbitrary: s out)
  case Nil
  then show ?case by simp
next
  case (Cons m cs)
  obtain now c where m: "m = (now, c)" by (cases m)
  obtain s' es where d: "deliver now c s = (s', es)" by (cases "deliver now c s")
  show ?case
    using Cons.IH[OF pending_step[OF Cons.prems d]] by (simp add: m d)
qed

text \<open>
  Claim C3.  After any run from a model as \<^verbatim>\<open>init\<close> creates it, a \<^verbatim>\<open>startLoad\<close>
  without a user description whose hash is not the hash of the latest
  \<^verbatim>\<open>load:approved\<close> of the run is dropped: the lock record, the place and the
  open document stay as they are, and the only effect is the log line, so
  no snapshot is requested and no \<^verbatim>\<open>load:ready\<close> is published.  A \<^verbatim>\<open>startLoad\<close>
  with a user description proceeds in every state: the lock is cleared, the
  place is reset, the document becomes the hash of the message, a snapshot is
  requested and \<^verbatim>\<open>load:ready\<close> is published.
\<close>

theorem superseded_startLoad:
  assumes "init persisted = Inr start"
  shows "(\<not> truthy (ls_userDescription d)
          \<and> last_approved (snd (run cs start)) \<noteq> Some (ls_sourceHash d)
          \<longrightarrow> interactionStatus (fst (startLoad d (fst (run cs start))))
                = interactionStatus (fst (run cs start))
              \<and> place_state (fst (startLoad d (fst (run cs start))))
                = place_state (fst (run cs start))
              \<and> docSourceHash (fst (startLoad d (fst (run cs start))))
                = docSourceHash (fst (run cs start))
              \<and> snd (startLoad d (fst (run cs start))) = [ConsoleLog (ls_name d)])
       \<and> (truthy (ls_userDescription d)
          \<longrightarrow> interactionStatus (fst (startLoad d s)) = no_status
              \<and> place_state (fst (startLoad d s)) = place_state fresh_model
              \<and> docSourceHash (fst (startLoad d s)) = Some (ls_sourceHash d)
              \<and> snd (startLoad d s)
                = [PersistSession,
                   PublishLoadReady (ls_viewId d) (ls_sourceHash d) (ls_name d)
                     (ls_userDescription d)])"
proof -
  obtain s0 out0 where start: "start = (s0, out0)" by (cases start)
  have "interactionStatus s0 = no_status"
    using assms init_status by (simp add: start)
  then have "sourceHash (interactionStatus s0) = None"
    by (simp add: no_status_def)
  then have p: "sourceHash (interactionStatus (fst (run cs start))) = None
         \<or> sourceHash (interactionStatus (fst (run cs start))) = last_approved (snd (run cs start))"
    using pending_run[of s0 out0 cs] by (simp add: start)
  have dropped: "\<not> truthy (ls_userDescription d) \<Longrightarrow>
        last_approved (snd (run cs start)) \<noteq> Some (ls_sourceHash d) \<Longrightarrow>
        Some (ls_sourceHash d) \<noteq> sourceHash (interactionStatus (fst (run cs start)))"
    using p by auto
  have first: "\<not> truthy (ls_userDescription d) \<Longrightarrow>
        last_approved (snd (run cs start)) \<noteq> Some (ls_sourceHash d) \<Longrightarrow>
        interactionStatus (fst (startLoad d (fst (run cs start))))
                = interactionStatus (fst (run cs start))
              \<and> place_state (fst (startLoad d (fst (run cs start))))
                = place_state (fst (run cs start))
              \<and> docSourceHash (fst (startLoad d (fst (run cs start))))
                = docSourceHash (fst (run cs start))
              \<and> snd (startLoad d (fst (run cs start))) = [ConsoleLog (ls_name d)]"
    using dropped by (simp add: startLoad_def Let_def place_state_def)
  have second: "truthy (ls_userDescription d) \<Longrightarrow>
          interactionStatus (fst (startLoad d s)) = no_status
              \<and> place_state (fst (startLoad d s)) = place_state fresh_model
              \<and> docSourceHash (fst (startLoad d s)) = Some (ls_sourceHash d)
              \<and> snd (startLoad d s)
                = [PersistSession,
                   PublishLoadReady (ls_viewId d) (ls_sourceHash d) (ls_name d)
                     (ls_userDescription d)]"
    by (simp add: startLoad_def Let_def place_state_def resetPlaceParameters_def fresh_model_def)
  show ?thesis
    using first second by blast
qed

text \<open>
  \<open>A\<close> is approved for \<open>H1\<close>, then \<open>B\<close> for \<open>H2\<close>; the late \<^verbatim>\<open>startLoad\<close> of
  \<open>A\<close> for \<open>H1\<close> is dropped, and the same message with a user description
  goes through.
\<close>

theorem superseded_startLoad_witness:
  "last_approved (snd (run [(0, RequestLoad (load_of ''A'' ''H1'')),
                            (1, RequestLoad (load_of ''B'' ''H2''))] (fresh_model, [])))
     = Some ''H2''
   \<and> startLoad (start_of ''A'' ''H1'' None) (held (load_lock ''B'' ''H2'' 1))
     = ((held (load_lock ''B'' ''H2'' 1))
          \<lparr>knownHandles := [''H1'' \<mapsto> (DataHandle ''H1'', ''a.pdf'')]\<rparr>,
        [ConsoleLog ''a.pdf''])
   \<and> interactionStatus
        (fst (startLoad (start_of ''A'' ''H1'' None)
               (fst (run [(0, RequestLoad (load_of ''A'' ''H1'')),
                          (1, RequestLoad (load_of ''B'' ''H2''))] (fresh_model, [])))))
     = load_lock ''B'' ''H2'' 1
   \<and> snd (startLoad (start_of ''A'' ''H1'' None)
               (fst (run [(0, RequestLoad (load_of ''A'' ''H1'')),
                          (1, RequestLoad (load_of ''B'' ''H2''))] (fresh_model, []))))
     = [ConsoleLog ''a.pdf'']
   \<and> interactionStatus
        (fst (startLoad (start_of ''A'' ''H1'' (Some ''view ab'')) (held (load_lock ''B'' ''H2'' 1))))
     = no_status
   \<and> docSourceHash
        (fst (startLoad (start_of ''A'' ''H1'' (Some ''view ab'')) (held (load_lock ''B'' ''H2'' 1))))
     = Some ''H1''"
proof -
  let ?cs = "[(0, RequestLoad (load_of ''A'' ''H1'')), (1, RequestLoad (load_of ''B'' ''H2''))]"
  have i: "init None = Inr (fresh_model, [])" by (simp add: init_def)
  have r: "run ?cs (fresh_model, [])
           = (held (load_lock ''B'' ''H2'' 1),
              [PublishLoadApproved (load_of ''A'' ''H1''), PublishLoadApproved (load_of ''B'' ''H2'')])"
    by (simp add: handler_defs fixture_defs Let_def)
  have l: "last_approved (snd (run ?cs (fresh_model, []))) = Some ''H2''"
    unfolding r by (simp add: load_of_def)
  have h: "\<not> truthy (ls_userDescription (start_of ''A'' ''H1'' None))"
    "last_approved (snd (run ?cs (fresh_model, []))) \<noteq> Some (ls_sourceHash (start_of ''A'' ''H1'' None))"
    "truthy (ls_userDescription (start_of ''A'' ''H1'' (Some ''view ab'')))"
    unfolding l by (simp_all add: start_of_def truthy_def)
  have s: "interactionStatus (fst (run ?cs (fresh_model, []))) = load_lock ''B'' ''H2'' 1"
    unfolding r by (simp add: held_def)
  have e: "startLoad (start_of ''A'' ''H1'' None) (held (load_lock ''B'' ''H2'' 1))
     = ((held (load_lock ''B'' ''H2'' 1))
          \<lparr>knownHandles := [''H1'' \<mapsto> (DataHandle ''H1'', ''a.pdf'')]\<rparr>,
        [ConsoleLog ''a.pdf''])"
    by (simp add: startLoad_def Let_def fixture_defs)
  show ?thesis
    using superseded_startLoad[OF i, where d = "start_of ''A'' ''H1'' None" and cs = ?cs]
      superseded_startLoad[OF i, where d = "start_of ''A'' ''H1'' (Some ''view ab'')"
        and s = "held (load_lock ''B'' ''H2'' 1)"] h l s e
    by (simp add: start_of_def)
qed

subsection \<open>The table of known handles\<close>

lemma knownHandles_deliver:
  "knownHandles s h = Some e \<Longrightarrow> knownHandles (fst (deliver now c s)) h = Some e"
  by (cases c) (auto simp: handler_defs Let_def split: if_splits)

lemma knownHandles_run:
  "knownHandles s h = Some e \<Longrightarrow> knownHandles (fst (run cs (s, out))) h = Some e"
  using run_invariant[of cs "\<lambda>s. knownHandles s h = Some e" s out] knownHandles_deliver
  by blast

lemma knownHandles_others:
  "(\<forall>d. c \<noteq> StartLoad d) \<Longrightarrow> knownHandles (fst (deliver now c s)) = knownHandles s"
  by (cases c) (auto simp: handler_defs Let_def split: if_splits)

text \<open>
  Claim C8.  From any state, so at any point after creation, an entry of
  \<^verbatim>\<open>knownHandles\<close> keeps its handle and its name through every run of
  messages: it is never replaced and never removed.  No message other than
  \<^verbatim>\<open>startLoad\<close> changes the table, and \<^verbatim>\<open>startLoad\<close> adds the entry of its own
  hash with its own handle and name when the hash has none, and changes
  nothing in the table when it has one (the first writer wins).
\<close>

theorem knownHandles_first_writer:
  "(knownHandles s h = Some e \<longrightarrow> knownHandles (fst (run cs (s, out))) h = Some e)
   \<and> ((\<forall>d. c \<noteq> StartLoad d) \<longrightarrow> knownHandles (fst (deliver now c s)) = knownHandles s)
   \<and> knownHandles (fst (startLoad d s))
     = (if knownHandles s (ls_sourceHash d) = None
        then (knownHandles s)(ls_sourceHash d \<mapsto> (ls_handle d, ls_name d))
        else knownHandles s)"
proof -
  have "knownHandles (fst (startLoad d s))
     = (if knownHandles s (ls_sourceHash d) = None
        then (knownHandles s)(ls_sourceHash d \<mapsto> (ls_handle d, ls_name d))
        else knownHandles s)"
    by (auto simp: startLoad_def Let_def resetPlaceParameters_def)
  then show ?thesis
    using knownHandles_run[of s h e cs out] knownHandles_others[of c now s] by blast
qed

text \<open>
  \<open>H1\<close> keeps its first handle and name through a second \<^verbatim>\<open>startLoad\<close> for
  \<open>H1\<close> with another handle and through a load of \<open>H2\<close>; a move leaves the
  table alone; a \<^verbatim>\<open>startLoad\<close> for the unknown \<open>H2\<close> adds it.
\<close>

theorem knownHandles_first_writer_witness:
  "knownHandles known_H1 ''H1'' = Some (DataHandle ''first'', ''first.pdf'')
   \<and> knownHandles
        (fst (run [(0, StartLoad (start_of ''B'' ''H1'' (Some ''view ab''))),
                   (1, RequestLoad (load_of ''A'' ''H2'')),
                   (2, StartLoad (start_of ''A'' ''H2'' None))] (known_H1, []))) ''H1''
     = Some (DataHandle ''first'', ''first.pdf'')
   \<and> knownHandles (fst (deliver 3 (SetPlace (place_at ''A'' 3)) known_H1)) = knownHandles known_H1
   \<and> knownHandles (fst (startLoad (start_of ''B'' ''H1'' (Some ''view ab'')) known_H1))
     = knownHandles known_H1
   \<and> knownHandles (fst (startLoad (start_of ''A'' ''H2'' None) known_H1))
     = (knownHandles known_H1)(''H2'' \<mapsto> (DataHandle ''H2'', ''a.pdf''))"
proof -
  have k: "knownHandles known_H1 ''H1'' = Some (DataHandle ''first'', ''first.pdf'')"
    "knownHandles known_H1 ''H2'' = None"
    by (simp_all add: known_H1_def)
  have n: "\<forall>d. SetPlace (place_at ''A'' 3) \<noteq> StartLoad d" by simp
  show ?thesis
    using knownHandles_first_writer[where s = known_H1 and h = "''H1''"
        and e = "(DataHandle ''first'', ''first.pdf'')"
        and cs = "[(0, StartLoad (start_of ''B'' ''H1'' (Some ''view ab''))),
                   (1, RequestLoad (load_of ''A'' ''H2'')),
                   (2, StartLoad (start_of ''A'' ''H2'' None))]" and out = "[]"
        and c = "SetPlace (place_at ''A'' 3)" and now = 3
        and d = "start_of ''B'' ''H1'' (Some ''view ab'')"]
      knownHandles_first_writer[where s = known_H1 and d = "start_of ''A'' ''H2'' None"
        and c = "SetPlace (place_at ''A'' 3)"]
      k n
    by (simp add: start_of_def)
qed

subsection \<open>A dropped load still registers its handle\<close>

lemma getUserDescription_truthy: "truthy (Some (getUserDescription u vid))"
  by (simp add: getUserDescription_def defaultUserDescription_def truthy_def split: option.splits)

text \<open>
  Claim C10.  A \<^verbatim>\<open>startLoad\<close> for a hash that \<^verbatim>\<open>knownHandles\<close> does not have
  adds the entry with the handle and name of the message, whether the message
  then proceeds or is dropped: the table is written before the supersession
  test.  When it is dropped, the new entry is the only change and the log
  line the only effect.  After any further messages, a view that is given the
  same content again (and does not show it) finds the entry and publishes
  \<^verbatim>\<open>load:start\<close> with that handle and name and a user description, without a
  new upload.
\<close>

theorem dropped_startLoad_registers:
  assumes "knownHandles s (ls_sourceHash d) = None"
  shows "knownHandles (fst (startLoad d s)) (ls_sourceHash d) = Some (ls_handle d, ls_name d)
       \<and> (\<not> truthy (ls_userDescription d)
            \<and> sourceHash (interactionStatus s) \<noteq> Some (ls_sourceHash d)
          \<longrightarrow> startLoad d s
              = (s\<lparr>knownHandles := (knownHandles s)(ls_sourceHash d \<mapsto> (ls_handle d, ls_name d))\<rparr>,
                 [ConsoleLog (ls_name d)]))
       \<and> (viewDoc \<noteq> Some (ls_sourceHash d)
          \<longrightarrow> uploadFile_publish (fst (run cs (startLoad d s))) viewDoc vid userDesc
                (ls_sourceHash d) fileName
              = Some (StartLoad \<lparr>ls_viewId = Some vid, ls_sourceHash = ls_sourceHash d,
                                 ls_handle = ls_handle d, ls_name = ls_name d,
                                 ls_userDescription = Some (getUserDescription userDesc vid)\<rparr>)
              \<and> truthy (Some (getUserDescription userDesc vid)))"
proof -
  have reg: "knownHandles (fst (startLoad d s)) (ls_sourceHash d) = Some (ls_handle d, ls_name d)"
    using assms by (simp add: startLoad_def Let_def resetPlaceParameters_def)
  have later: "knownHandles (fst (run cs (startLoad d s))) (ls_sourceHash d)
                 = Some (ls_handle d, ls_name d)"
    using knownHandles_run[OF reg, of cs "snd (startLoad d s)"] by simp
  have drop: "\<not> truthy (ls_userDescription d) \<Longrightarrow>
      sourceHash (interactionStatus s) \<noteq> Some (ls_sourceHash d) \<Longrightarrow>
      startLoad d s
        = (s\<lparr>knownHandles := (knownHandles s)(ls_sourceHash d \<mapsto> (ls_handle d, ls_name d))\<rparr>,
           [ConsoleLog (ls_name d)])"
    using assms by (auto simp: startLoad_def Let_def)
  have hit: "viewDoc \<noteq> Some (ls_sourceHash d) \<Longrightarrow>
      uploadFile_publish (fst (run cs (startLoad d s))) viewDoc vid userDesc
                (ls_sourceHash d) fileName
      = Some (StartLoad \<lparr>ls_viewId = Some vid, ls_sourceHash = ls_sourceHash d,
                         ls_handle = ls_handle d, ls_name = ls_name d,
                         ls_userDescription = Some (getUserDescription userDesc vid)\<rparr>)"
    using later by (auto simp: uploadFile_publish_def Let_def)
  show ?thesis
    using reg drop hit getUserDescription_truthy by blast
qed

text \<open>
  \<open>B\<close> holds the load lock for \<open>H2\<close> when the \<^verbatim>\<open>startLoad\<close> of \<open>A\<close> for \<open>H1\<close>
  arrives without a user description: it is dropped and \<open>H1\<close> is registered.
  After the load of \<open>H2\<close> has completed, view \<open>C\<close> dropping the content \<open>H1\<close>
  publishes \<^verbatim>\<open>load:start\<close> with the handle \<open>A\<close> stored.
\<close>

theorem dropped_startLoad_registers_witness:
  "startLoad (start_of ''A'' ''H1'' None) (held (load_lock ''B'' ''H2'' 1))
     = ((held (load_lock ''B'' ''H2'' 1))
          \<lparr>knownHandles := (knownHandles (held (load_lock ''B'' ''H2'' 1)))
                             (''H1'' \<mapsto> (DataHandle ''H1'', ''a.pdf''))\<rparr>,
        [ConsoleLog ''a.pdf''])
   \<and> uploadFile_publish
        (fst (run [(2, StartLoad (start_of ''B'' ''H2'' None))]
               (startLoad (start_of ''A'' ''H1'' None) (held (load_lock ''B'' ''H2'' 1)))))
        (Some ''H2'') ''C'' None ''H1'' ''again.pdf''
     = Some (StartLoad \<lparr>ls_viewId = Some ''C'', ls_sourceHash = ''H1'',
                         ls_handle = DataHandle ''H1'', ls_name = ''a.pdf'',
                         ls_userDescription = Some ''view C''\<rparr>)"
proof -
  have k: "knownHandles (held (load_lock ''B'' ''H2'' 1)) (ls_sourceHash (start_of ''A'' ''H1'' None)) = None"
    by (simp add: fixture_defs)
  have h: "\<not> truthy (ls_userDescription (start_of ''A'' ''H1'' None))"
    "sourceHash (interactionStatus (held (load_lock ''B'' ''H2'' 1)))
       \<noteq> Some (ls_sourceHash (start_of ''A'' ''H1'' None))"
    "Some ''H2'' \<noteq> Some (ls_sourceHash (start_of ''A'' ''H1'' None))"
    by (simp_all add: fixture_defs)
  have u: "getUserDescription None ''C'' = ''view C''"
    by (simp add: getUserDescription_def defaultUserDescription_def)
  note t = dropped_startLoad_registers[OF k, where viewDoc = "Some ''H2''" and vid = "''C''"
        and userDesc = None and fileName = "''again.pdf''"
        and cs = "[(2, StartLoad (start_of ''B'' ''H2'' None))]"]
  have a: "startLoad (start_of ''A'' ''H1'' None) (held (load_lock ''B'' ''H2'' 1))
     = ((held (load_lock ''B'' ''H2'' 1))
          \<lparr>knownHandles := (knownHandles (held (load_lock ''B'' ''H2'' 1)))
                             (''H1'' \<mapsto> (DataHandle ''H1'', ''a.pdf''))\<rparr>,
        [ConsoleLog ''a.pdf''])"
    using t[THEN conjunct2, THEN conjunct1] h by (simp add: start_of_def)
  have b: "uploadFile_publish
        (fst (run [(2, StartLoad (start_of ''B'' ''H2'' None))]
               (startLoad (start_of ''A'' ''H1'' None) (held (load_lock ''B'' ''H2'' 1)))))
        (Some ''H2'') ''C'' None ''H1'' ''again.pdf''
     = Some (StartLoad \<lparr>ls_viewId = Some ''C'', ls_sourceHash = ''H1'',
                         ls_handle = DataHandle ''H1'', ls_name = ''a.pdf'',
                         ls_userDescription = Some ''view C''\<rparr>)"
    using t[THEN conjunct2, THEN conjunct2] h(3) u by (simp add: start_of_def)
  show ?thesis
    using a b by blast
qed

subsection \<open>The hash of an empty file\<close>




subsection \<open>Expiry of a place lease\<close>

lemma check_cases:
  "checkInteractionStatus now s =
     (if lock (interactionStatus s) = Some Place
         \<and> time (interactionStatus s) = Some (now - PLACE_TIMEOUT)
      then s\<lparr>interactionStatus := no_status\<rparr> else s)"
  by (auto simp: checkInteractionStatus_def releaseInteractionStatus_def split: option.splits)

lemma expired_lease:
  assumes "single_lock (interactionStatus s)" "checkInteractionStatus now s \<noteq> s"
  shows "\<exists>w. interactionStatus s = lease w (now - PLACE_TIMEOUT)"
proof -
  have l: "lock (interactionStatus s) = Some Place"
    and t: "time (interactionStatus s) = Some (now - PLACE_TIMEOUT)"
    using assms(2) by (auto simp: check_cases split: if_splits)
  obtain w where w: "viewId (interactionStatus s) = Some w"
    using assms(1) l by (cases "viewId (interactionStatus s)") (auto simp: single_lock_def no_status_def)
  have "sourceHash (interactionStatus s) = None"
    using assms(1) l w by (simp add: single_lock_def)
  then have "interactionStatus s = lease w (now - PLACE_TIMEOUT)"
    using l t w by (cases "interactionStatus s") (simp add: lease_def)
  then show ?thesis by blast
qed

lemma leaves_lease_deliver:
  assumes "interactionStatus s = lease v t" "v \<noteq> []" "leaves_lease v t (now, c)"
  shows "interactionStatus (fst (deliver now c s)) = lease v t"
  using assms
  by (cases c) (auto simp: handler_defs Let_def lease_def truthy_def)

lemma leaves_lease_run:
  assumes "interactionStatus s = lease v t" "v \<noteq> []" "\<forall>m \<in> set cs. leaves_lease v t m"
  shows "interactionStatus (fst (run cs (s, out))) = lease v t"
  using run_invariant[of cs "\<lambda>s. interactionStatus s = lease v t" s out]
    leaves_lease_deliver assms
  by blast

lemma other_instant_deliver:
  assumes "interactionStatus s = lease v t \<or> time (interactionStatus s) \<noteq> Some t" "now \<noteq> t"
  shows "interactionStatus (fst (deliver now c s)) = lease v t
         \<or> time (interactionStatus (fst (deliver now c s))) \<noteq> Some t"
  using assms
  by (cases c) (auto simp: handler_defs Let_def lease_def no_status_def split: if_splits)

lemma other_instant_run:
  assumes "interactionStatus s = lease v t" "\<forall>m \<in> set cs. fst m \<noteq> t"
  shows "interactionStatus (fst (run cs (s, out))) = lease v t
         \<or> time (interactionStatus (fst (run cs (s, out)))) \<noteq> Some t"
  using run_invariant[of cs
      "\<lambda>s. interactionStatus s = lease v t \<or> time (interactionStatus s) \<noteq> Some t" s out]
    other_instant_deliver assms
  by fastforce

text \<open>
  Against claim C4 as stated: the check compares the kind and the acquisition
  time of the lock, and not its holder.  \<open>A\<close> moves at time 0, which schedules
  a check for time 1000; at the same logical time \<open>A\<close> leaves and \<open>B\<close> moves.
  At time 1000 the lock is the lease of \<open>B\<close>, not held by the view whose grant
  scheduled the check and not untouched since that grant, and the check
  releases it.
\<close>

theorem lease_check_counterexample:
  "snd (run [(0, SetPlace (place_at ''A'' 3)), (0, ViewExit ''A''),
             (0, SetPlace (place_at ''B'' 7))] (fresh_model, []))
     = [FutureCheckInteractionStatus 1000, PublishPlaceUpdate ''A'',
        FutureCheckInteractionStatus 1000, PublishPlaceUpdate ''B'']
   \<and> interactionStatus
        (fst (run [(0, SetPlace (place_at ''A'' 3)), (0, ViewExit ''A''),
                   (0, SetPlace (place_at ''B'' 7))] (fresh_model, [])))
     = lease ''B'' 0
   \<and> lease ''B'' 0 \<noteq> lease ''A'' 0
   \<and> interactionStatus
        (checkInteractionStatus 1000
          (fst (run [(0, SetPlace (place_at ''A'' 3)), (0, ViewExit ''A''),
                     (0, SetPlace (place_at ''B'' 7))] (fresh_model, []))))
     = no_status"
  by (simp add: handler_defs fixture_defs Let_def)

text \<open>
  Claim C4, amended.  Let \<open>v\<close> be a view id, not empty, and \<open>t\<close> a logical
  time.
  \<^item> A place grant to \<open>v\<close> at \<open>t\<close> schedules the check for \<open>t + PLACE_TIMEOUT\<close>
    and writes the lease of \<open>v\<close> acquired at \<open>t\<close>.
  \<^item> If the messages delivered afterwards leave the lease alone (no refresh,
    release, pre-emption or overwriting; moves and requests of other views,
    dropped loads and earlier checks may occur), the lease is still there and
    the check at \<open>t + PLACE_TIMEOUT\<close> releases it.
  \<^item> A check at any time releases the lock exactly when the lock is a place
    lock acquired exactly \<open>PLACE_TIMEOUT\<close> before, and otherwise changes
    nothing.  So, the lock record being well formed, a check changes the
    model only if the lock is a lease: of kind place, held by the view that
    acquired it \<open>PLACE_TIMEOUT\<close> before, and not refreshed since.
  \<^item> After any messages delivered at logical instants other than \<open>t\<close>, the
    check at \<open>t + PLACE_TIMEOUT\<close> changes the model only if the lock record is
    still the lease of \<open>v\<close> acquired at \<open>t\<close>.  Checks of leases that were
    refreshed or superseded change nothing.
  \<^item> A load lock is never released by a check.
\<close>

theorem lease_expiry:
  assumes "v \<noteq> []"
  shows "(applyLockIfAvailable t \<lparr>ld_viewId = v, ld_sourceHash = None, ld_lock = Place\<rparr> s
            = (True, s1, es)
          \<longrightarrow> es = [FutureCheckInteractionStatus (t + PLACE_TIMEOUT)]
              \<and> interactionStatus s1 = lease v t)
       \<and> (interactionStatus s2 = lease v t \<and> (\<forall>m \<in> set cs. leaves_lease v t m)
          \<longrightarrow> interactionStatus (fst (run cs (s2, out))) = lease v t
              \<and> interactionStatus
                  (checkInteractionStatus (t + PLACE_TIMEOUT) (fst (run cs (s2, out))))
                = no_status)
       \<and> checkInteractionStatus now s3
         = (if lock (interactionStatus s3) = Some Place
               \<and> time (interactionStatus s3) = Some (now - PLACE_TIMEOUT)
            then s3\<lparr>interactionStatus := no_status\<rparr> else s3)
       \<and> (single_lock (interactionStatus s3) \<and> checkInteractionStatus now s3 \<noteq> s3
          \<longrightarrow> (\<exists>w. interactionStatus s3 = lease w (now - PLACE_TIMEOUT)))
       \<and> (interactionStatus s2 = lease v t \<and> (\<forall>m \<in> set ds. fst m \<noteq> t)
            \<and> checkInteractionStatus (t + PLACE_TIMEOUT) (fst (run ds (s2, out)))
              \<noteq> fst (run ds (s2, out))
          \<longrightarrow> interactionStatus (fst (run ds (s2, out))) = lease v t)
       \<and> (lock (interactionStatus s3) = Some Load \<longrightarrow> checkInteractionStatus now s3 = s3)"
proof -
  have grant: "applyLockIfAvailable t \<lparr>ld_viewId = v, ld_sourceHash = None, ld_lock = Place\<rparr> s
            = (True, s1, es) \<Longrightarrow>
        es = [FutureCheckInteractionStatus (t + PLACE_TIMEOUT)] \<and> interactionStatus s1 = lease v t"
    by (auto simp: applyLockIfAvailable_def Let_def lease_def split: if_splits)
  have kept: "interactionStatus s2 = lease v t \<Longrightarrow> \<forall>m \<in> set cs. leaves_lease v t m \<Longrightarrow>
        interactionStatus (fst (run cs (s2, out))) = lease v t"
    using leaves_lease_run assms by blast
  have fires: "interactionStatus s' = lease v t \<Longrightarrow>
        interactionStatus (checkInteractionStatus (t + PLACE_TIMEOUT) s') = no_status" for s'
    by (simp add: check_cases lease_def)
  have only: "interactionStatus s2 = lease v t \<Longrightarrow> \<forall>m \<in> set ds. fst m \<noteq> t \<Longrightarrow>
        checkInteractionStatus (t + PLACE_TIMEOUT) (fst (run ds (s2, out)))
              \<noteq> fst (run ds (s2, out)) \<Longrightarrow>
        interactionStatus (fst (run ds (s2, out))) = lease v t"
    using other_instant_run[of s2 v t ds out]
    by (auto simp: check_cases split: if_splits)
  have load: "lock (interactionStatus s3) = Some Load \<Longrightarrow> checkInteractionStatus now s3 = s3"
    by (simp add: check_cases)
  have whose: "single_lock (interactionStatus s3) \<Longrightarrow> checkInteractionStatus now s3 \<noteq> s3 \<Longrightarrow>
        \<exists>w. interactionStatus s3 = lease w (now - PLACE_TIMEOUT)"
    using expired_lease by blast
  show ?thesis
    using grant kept fires only load whose check_cases[of now s3] by blast
qed

text \<open>
  The lease of \<open>A\<close> granted at 0 survives a move of \<open>B\<close>, an early check, a
  dropped load and an end of interaction of \<open>B\<close>, and is released by the check
  at 1000.  Refreshed at 400, it is left alone by the check at 1000 and
  released by the check at 1400.  A load lock is left alone.
\<close>

theorem lease_expiry_witness:
  "applyLockIfAvailable 0 \<lparr>ld_viewId = ''A'', ld_sourceHash = None, ld_lock = Place\<rparr> fresh_model
     = (True, held (lease ''A'' 0), [FutureCheckInteractionStatus 1000])
   \<and> interactionStatus
        (fst (run [(100, SetPlace (place_at ''B'' 7)), (300, CheckInteractionStatus),
                   (400, StartLoad (start_of ''B'' ''H1'' None)), (500, EndInteraction ''B'')]
               (held (lease ''A'' 0), [])))
     = lease ''A'' 0
   \<and> interactionStatus
        (checkInteractionStatus 1000
          (fst (run [(100, SetPlace (place_at ''B'' 7)), (300, CheckInteractionStatus),
                     (400, StartLoad (start_of ''B'' ''H1'' None)), (500, EndInteraction ''B'')]
                 (held (lease ''A'' 0), []))))
     = no_status
   \<and> checkInteractionStatus 1000 (held (lease ''A'' 400)) = held (lease ''A'' 400)
   \<and> checkInteractionStatus 1400 (held (lease ''A'' 400)) = fresh_model
   \<and> checkInteractionStatus 1000 (held (load_lock ''A'' ''H1'' 0)) = held (load_lock ''A'' ''H1'' 0)
   \<and> interactionStatus (fst (run [(100, RequestRotation (rotate_by ''B'' 90))] (held (lease ''A'' 0), [])))
     = lease ''A'' 0
   \<and> (\<exists>w. interactionStatus (held (lease ''A'' 0)) = lease w (1000 - PLACE_TIMEOUT))"
proof -
  let ?cs = "[(100, SetPlace (place_at ''B'' 7)), (300, CheckInteractionStatus),
              (400, StartLoad (start_of ''B'' ''H1'' None)), (500, EndInteraction ''B'')]"
  let ?ds = "[(100::int, RequestRotation (rotate_by ''B'' 90))]"
  have v: "''A'' \<noteq> []" by simp
  have g: "applyLockIfAvailable 0 \<lparr>ld_viewId = ''A'', ld_sourceHash = None, ld_lock = Place\<rparr> fresh_model
     = (True, held (lease ''A'' 0), [FutureCheckInteractionStatus 1000])"
    by (simp add: applyLockIfAvailable_def Let_def fixture_defs)
  have st: "interactionStatus (held (lease ''A'' 0)) = lease ''A'' 0"
    by (simp add: held_def)
  have lv: "\<forall>m \<in> set ?cs. leaves_lease ''A'' 0 m"
    by (simp add: fixture_defs)
  have oi: "\<forall>m \<in> set ?ds. fst m \<noteq> 0" by simp
  have ch: "checkInteractionStatus (0 + PLACE_TIMEOUT) (fst (run ?ds (held (lease ''A'' 0), [])))
              \<noteq> fst (run ?ds (held (lease ''A'' 0), []))"
    by (simp add: handler_defs fixture_defs Let_def)
  have ll: "lock (interactionStatus (held (load_lock ''A'' ''H1'' 0))) = Some Load"
    by (simp add: fixture_defs)
  note t = lease_expiry[OF v, where t = 0 and s = fresh_model and ?s1.0 = "held (lease ''A'' 0)"
      and es = "[FutureCheckInteractionStatus 1000]" and ?s2.0 = "held (lease ''A'' 0)"
      and cs = ?cs and out = "[]" and ds = ?ds]
  have a: "interactionStatus (fst (run ?cs (held (lease ''A'' 0), []))) = lease ''A'' 0
     \<and> interactionStatus (checkInteractionStatus (0 + PLACE_TIMEOUT)
          (fst (run ?cs (held (lease ''A'' 0), [])))) = no_status"
    using t[where ?s3.0 = fresh_model and now = 0] st lv by blast
  have b: "interactionStatus (fst (run ?ds (held (lease ''A'' 0), []))) = lease ''A'' 0"
    using t[where ?s3.0 = fresh_model and now = 0] st oi ch by blast
  have c: "checkInteractionStatus 1000 (held (lease ''A'' 400)) = held (lease ''A'' 400)"
    "checkInteractionStatus 1400 (held (lease ''A'' 400)) = fresh_model"
    using t[where ?s3.0 = "held (lease ''A'' 400)" and now = 1000, THEN conjunct2, THEN conjunct2, THEN conjunct1]
      t[where ?s3.0 = "held (lease ''A'' 400)" and now = 1400, THEN conjunct2, THEN conjunct2, THEN conjunct1]
    by (simp_all add: fixture_defs)
  have d: "checkInteractionStatus 1000 (held (load_lock ''A'' ''H1'' 0)) = held (load_lock ''A'' ''H1'' 0)"
    using t[where ?s3.0 = "held (load_lock ''A'' ''H1'' 0)" and now = 1000] ll by blast
  have e: "[FutureCheckInteractionStatus 1000] = [FutureCheckInteractionStatus (0 + PLACE_TIMEOUT)]
     \<and> interactionStatus (held (lease ''A'' 0)) = lease ''A'' 0"
    using t[where ?s3.0 = fresh_model and now = 0] g by blast
  have sl: "single_lock (interactionStatus (held (lease ''A'' 0)))"
    "checkInteractionStatus 1000 (held (lease ''A'' 0)) \<noteq> held (lease ''A'' 0)"
    by (simp_all add: single_lock_def checkInteractionStatus_def releaseInteractionStatus_def
        fixture_defs)
  have f: "\<exists>w. interactionStatus (held (lease ''A'' 0)) = lease w (1000 - PLACE_TIMEOUT)"
    using t[where ?s3.0 = "held (lease ''A'' 0)" and now = 1000] sl by blast
  have p: "0 + PLACE_TIMEOUT = 1000" by (simp add: PLACE_TIMEOUT_def)
  show ?thesis
    using g a b c d e f unfolding p by blast
qed

end
